theory Spec2Isabelle
  imports Main "HOL-Library.Sublist"
begin

section \<open>Data model of the Verifying concept\<close>

text \<open>
  \<^verbatim>\<open>src/server/concepts/verifying.ts\<close>, lines 5-9: a verification request document.
  The field \<^verbatim>\<open>_id\<close> of \<^verbatim>\<open>BaseDoc\<close> is written \<open>oid\<close>. \<^verbatim>\<open>BaseDoc\<close> is not among the
  sources; its two timestamps are the fields \<open>createdAt\<close> and \<open>updatedAt\<close> of the spec
  (section 3), a clock reading each, as a natural number.
  The string-literal union of the \<^verbatim>\<open>status\<close> field is the datatype \<open>status_value\<close>.
\<close>

datatype status_value = Pending | Approved | Rejected

record VerificationRequestDoc =
  oid :: nat
  username :: string
  credentials :: string
  status :: status_value
  createdAt :: nat
  updatedAt :: nat

text \<open>
  The errors thrown by the module (\<^verbatim>\<open>./errors\<close>) and by the session resolver, each
  carrying its message.
\<close>

datatype error =
    BadValuesError string
  | NotAllowedError string
  | NotFoundError string
  | UnauthenticatedError string

section \<open>The record store\<close>

text \<open>
  Modelled from the spec: the generic record store \<^verbatim>\<open>DocCollection\<close> of
  \<^verbatim>\<open>src/server/framework/doc.ts\<close>, which is not among the sources. The spec (section 6)
  gives it as \<^verbatim>\<open>create(record) -> id\<close>, \<^verbatim>\<open>readOne(filter) -> record | absent\<close>,
  \<^verbatim>\<open>partialUpdate(filter, patch) -> void\<close> (a single-document update) and
  \<^verbatim>\<open>delete(filter) -> void\<close>, with ids that are unique and never reused, and (section 3)
  as assigning the timestamps on creation and on mutation. A collection is
  the list of its documents in insertion order together with the next unused id; a filter
  is a predicate on documents, and the single-document operations act on the first match.
  The store reads the wall clock when it creates or updates a document: that reading, one
  per store call, is the argument \<open>now\<close> of the two operations and of every function that
  reaches them.
\<close>

record DocCollection =
  docs :: "VerificationRequestDoc list"
  next_oid :: nat

definition empty_collection :: DocCollection where
  "empty_collection = \<lparr>docs = [], next_oid = 0\<rparr>"

text \<open>Modelled from the spec: the filter \<^verbatim>\<open>{ username }\<close> handed to the store.\<close>

definition by_username :: "string \<Rightarrow> VerificationRequestDoc \<Rightarrow> bool" where
  "by_username u d = (username d = u)"

text \<open>Modelled from the spec: \<^verbatim>\<open>readOne(filter)\<close> of the absent store.\<close>

definition readOne :: "(VerificationRequestDoc \<Rightarrow> bool) \<Rightarrow> DocCollection \<Rightarrow> VerificationRequestDoc option" where
  "readOne f col = find f (docs col)"

text \<open>
  Modelled from the spec: \<^verbatim>\<open>createOne(item)\<close> of the absent store; it stamps both
  timestamps with the clock reading and returns the new id.
\<close>

definition createOne ::
  "nat \<Rightarrow> string \<Rightarrow> string \<Rightarrow> status_value \<Rightarrow> DocCollection \<Rightarrow> nat \<times> DocCollection" where
  "createOne now u c s col =
     (next_oid col,
      \<lparr>docs = docs col @
         [\<lparr>oid = next_oid col, username = u, credentials = c, status = s,
           createdAt = now, updatedAt = now\<rparr>],
       next_oid = Suc (next_oid col)\<rparr>)"

text \<open>
  Modelled from the spec: acting on the first match only, as the single-document
  operations of the absent store do; \<open>update_first\<close> changes it, \<open>delete_first\<close> removes it.
\<close>

fun update_first :: "('a \<Rightarrow> bool) \<Rightarrow> ('a \<Rightarrow> 'a) \<Rightarrow> 'a list \<Rightarrow> 'a list" where
  "update_first f g [] = []"
| "update_first f g (x # xs) = (if f x then g x # xs else x # update_first f g xs)"

fun delete_first :: "('a \<Rightarrow> bool) \<Rightarrow> 'a list \<Rightarrow> 'a list" where
  "delete_first f [] = []"
| "delete_first f (x # xs) = (if f x then xs else x # delete_first f xs)"

text \<open>
  Modelled from the spec: \<^verbatim>\<open>partialUpdateOne(filter, update)\<close> of the absent store; the
  update \<^verbatim>\<open>{ status: v }\<close> is the function that sets the field, and the store stamps
  \<open>updatedAt\<close> of the document it updates with the clock reading, whatever the update is.
\<close>

definition partialUpdateOne ::
  "nat \<Rightarrow> (VerificationRequestDoc \<Rightarrow> bool) \<Rightarrow> (VerificationRequestDoc \<Rightarrow> VerificationRequestDoc)
     \<Rightarrow> DocCollection \<Rightarrow> DocCollection" where
  "partialUpdateOne now f patch col =
     col\<lparr>docs := update_first f (\<lambda>d. (patch d)\<lparr>updatedAt := now\<rparr>) (docs col)\<rparr>"

text \<open>Modelled from the spec: \<^verbatim>\<open>deleteOne(filter)\<close> of the absent store.\<close>

definition deleteOne :: "(VerificationRequestDoc \<Rightarrow> bool) \<Rightarrow> DocCollection \<Rightarrow> DocCollection" where
  "deleteOne f col = col\<lparr>docs := delete_first f (docs col)\<rparr>"

section \<open>The Verifying concept\<close>

text \<open>
  The object results \<^verbatim>\<open>{ msg }\<close> and \<^verbatim>\<open>{ msg, request }\<close>. Every operation takes the
  collection and returns what it returns or throws, paired with the collection it leaves.
  An operation that writes to the store takes first the clock reading \<open>now\<close> of that write.
\<close>

record msg_result =
  msg :: string

record create_result = msg_result +
  request :: "VerificationRequestDoc option"

text \<open>\<^verbatim>\<open>assertValidRequest\<close>, lines 63-70. An empty string is the only falsy string.\<close>

definition assertValidRequest :: "string \<Rightarrow> string \<Rightarrow> DocCollection \<Rightarrow> error + unit" where
  "assertValidRequest u c col =
     (if u = [] \<or> c = [] then Inl (BadValuesError ''User ID and credentials must be non-empty!'')
      else if readOne (by_username u) col \<noteq> None
        then Inl (NotAllowedError (''User with ID '' @ u @ '' already has a pending request!''))
      else Inr ())"

text \<open>\<^verbatim>\<open>createVerificationRequest\<close>, lines 26-30.\<close>

definition createVerificationRequest ::
  "nat \<Rightarrow> string \<Rightarrow> string \<Rightarrow> DocCollection \<Rightarrow> (error + create_result) \<times> DocCollection" where
  "createVerificationRequest now u c col =
     (case assertValidRequest u c col of
        Inl e \<Rightarrow> (Inl e, col)
      | Inr _ \<Rightarrow>
          (let (new_id, col') = createOne now u c Pending col
           in (Inr \<lparr>msg = ''Verification request created successfully!'',
                    request = readOne (by_username u) col'\<rparr>, col')))"

text \<open>\<^verbatim>\<open>getRequestByUser\<close>, lines 32-38: a read, the collection is not changed.\<close>

definition getRequestByUser :: "string \<Rightarrow> DocCollection \<Rightarrow> error + VerificationRequestDoc" where
  "getRequestByUser u col =
     (case readOne (by_username u) col of
        None \<Rightarrow> Inl (NotFoundError ''Verification request not found!'')
      | Some r \<Rightarrow> Inr r)"

text \<open>\<^verbatim>\<open>approveRequest\<close>, lines 40-47.\<close>

definition approveRequest ::
  "nat \<Rightarrow> string \<Rightarrow> DocCollection \<Rightarrow> (error + msg_result) \<times> DocCollection" where
  "approveRequest now u col =
     (case readOne (by_username u) col of
        None \<Rightarrow> (Inl (NotFoundError ''Verification request not found.''), col)
      | Some r \<Rightarrow>
          (Inr \<lparr>msg = ''Verification request approved successfully!''\<rparr>,
           partialUpdateOne now (by_username u) (\<lambda>d. d\<lparr>status := Approved\<rparr>) col))"

text \<open>
  \<^verbatim>\<open>rejectRequest\<close>, lines 49-56. The optional \<^verbatim>\<open>reason\<close> is an option; the test
  \<^verbatim>\<open>reason ? ... : ""\<close> takes the first branch for a supplied, non-empty string only.
\<close>

definition reason_text :: "string option \<Rightarrow> string" where
  "reason_text reason =
     (case reason of
        None \<Rightarrow> []
      | Some r \<Rightarrow> (if r = [] then [] else ''Reason: '' @ r))"

definition rejectRequest ::
  "nat \<Rightarrow> string \<Rightarrow> string option \<Rightarrow> DocCollection \<Rightarrow> (error + msg_result) \<times> DocCollection" where
  "rejectRequest now u reason col =
     (case readOne (by_username u) col of
        None \<Rightarrow> (Inl (NotFoundError ''Verification request not found.''), col)
      | Some r \<Rightarrow>
          (Inr \<lparr>msg = ''Verification request rejected. '' @ reason_text reason\<rparr>,
           partialUpdateOne now (by_username u) (\<lambda>d. d\<lparr>status := Rejected\<rparr>) col))"

text \<open>\<^verbatim>\<open>deleteRequest\<close>, lines 58-61: no check, no throw.\<close>

definition deleteRequest :: "string \<Rightarrow> DocCollection \<Rightarrow> (error + msg_result) \<times> DocCollection" where
  "deleteRequest u col =
     (Inr \<lparr>msg = ''Verification request deleted!''\<rparr>, deleteOne (by_username u) col)"

section \<open>Sequences of module operations\<close>

text \<open>
  One constructor per public operation of the concept; \<open>step\<close> runs one operation at a
  clock reading and keeps the collection it leaves (a thrown error leaves the collection
  as it was at the throw), \<open>run\<close> runs a list of operations, each with its clock reading,
  one at a time, first to last. The readings are arbitrary: nothing is assumed of the clock.
\<close>

datatype op =
    Create string string
  | Get string
  | Approve string
  | Reject string "string option"
  | Delete string

fun step :: "nat \<Rightarrow> op \<Rightarrow> DocCollection \<Rightarrow> DocCollection" where
  "step now (Create u c) col = snd (createVerificationRequest now u c col)"
| "step now (Get u) col = col"
| "step now (Approve u) col = snd (approveRequest now u col)"
| "step now (Reject u reason) col = snd (rejectRequest now u reason col)"
| "step now (Delete u) col = snd (deleteRequest u col)"

fun run :: "(nat \<times> op) list \<Rightarrow> DocCollection \<Rightarrow> DocCollection" where
  "run [] col = col"
| "run ((now, x) # xs) col = run xs (step now x col)"

text \<open>The pending documents of one subject.\<close>

definition pending_for :: "string \<Rightarrow> DocCollection \<Rightarrow> VerificationRequestDoc list" where
  "pending_for s col = filter (\<lambda>d. username d = s \<and> status d = Pending) (docs col)"


text \<open>The two properties of a collection that every run from the empty one keeps.\<close>

definition unique_usernames :: "DocCollection \<Rightarrow> bool" where
  "unique_usernames col = distinct (map username (docs col))"

definition fresh_ids :: "DocCollection \<Rightarrow> bool" where
  "fresh_ids col = (distinct (map oid (docs col)) \<and> list_all (\<lambda>d. oid d < next_oid col) (docs col))"

text \<open>
  Two reachable collections used as concrete inputs: alice's request created at time 10
  and approved at time 20, and the same with a pending request of bob added at time 30.
\<close>

definition approved_alice :: DocCollection where
  "approved_alice = run [(10, Create ''alice'' ''doc123''), (20, Approve ''alice'')] empty_collection"

definition pending_bob :: DocCollection where
  "pending_bob =
     run [(10, Create ''alice'' ''doc123''), (20, Approve ''alice''), (30, Create ''bob'' ''doc7'')]
       empty_collection"

section \<open>The verification routes\<close>

text \<open>
  \<^verbatim>\<open>src/server/routes.ts\<close>, lines 178-219. A route returns one of the objects
  \<^verbatim>\<open>{ error }\<close>, \<^verbatim>\<open>{ msg }\<close> (the module's own result) or \<^verbatim>\<open>{ status }\<close>, or throws.
  \<^verbatim>\<open>Sessioning.getUser\<close> and \<^verbatim>\<open>Authing.isAdmin\<close> are not among the sources: the routes
  take them as the parameters \<open>getUser\<close> and \<open>isAdmin\<close>, each of which may throw. The
  two routes that write take the clock reading \<open>now\<close> of the store's write.
\<close>

datatype response =
    Error_response string
  | Msg_response msg_result
  | Status_response string

definition status_text :: "status_value \<Rightarrow> string" where
  "status_text s = (case s of Pending \<Rightarrow> ''pending'' | Approved \<Rightarrow> ''approved'' | Rejected \<Rightarrow> ''rejected'')"

text \<open>The test \<^verbatim>\<open>!request\<close> on a document: an object is never falsy.\<close>

definition falsy_doc :: "VerificationRequestDoc \<Rightarrow> bool" where
  "falsy_doc d = False"

text \<open>\<^verbatim>\<open>getVerificationStatus\<close>, lines 178-186.\<close>

definition getVerificationStatus ::
  "'s \<Rightarrow> string \<Rightarrow> DocCollection \<Rightarrow> (error + response) \<times> DocCollection" where
  "getVerificationStatus session u col =
     (case getRequestByUser u col of
        Inl e \<Rightarrow> (Inl e, col)
      | Inr req \<Rightarrow>
          if falsy_doc req then (Inr (Status_response ''No verification request found.''), col)
          else (Inr (Status_response (status_text (status req))), col))"

text \<open>\<^verbatim>\<open>approveVerificationRequest\<close>, lines 196-206.\<close>

definition approveVerificationRequest ::
  "('s \<Rightarrow> error + 'u) \<Rightarrow> ('u \<Rightarrow> error + bool) \<Rightarrow> nat \<Rightarrow> 's \<Rightarrow> string \<Rightarrow> DocCollection
     \<Rightarrow> (error + response) \<times> DocCollection" where
  "approveVerificationRequest getUser isAdmin now session requester col =
     (case getRequestByUser requester col of
        Inl e \<Rightarrow> (Inl e, col)
      | Inr verificationRequest \<Rightarrow>
          (case getUser session of
             Inl e \<Rightarrow> (Inl e, col)
           | Inr user \<Rightarrow>
               (case isAdmin user of
                  Inl e \<Rightarrow> (Inl e, col)
                | Inr adminStatus \<Rightarrow>
                    if \<not> adminStatus
                    then (Inr (Error_response ''You do not have permission to approve requests.''), col)
                    else (case approveRequest now requester col of
                            (Inl e, col') \<Rightarrow> (Inl e, col')
                          | (Inr result, col') \<Rightarrow> (Inr (Msg_response result), col')))))"

text \<open>
  \<^verbatim>\<open>rejectVerificationRequest\<close>, lines 208-219. The route has no reason parameter and
  calls \<^verbatim>\<open>Verifying.rejectRequest(requester)\<close> with the second argument left out.
\<close>

definition rejectVerificationRequest ::
  "('s \<Rightarrow> error + 'u) \<Rightarrow> ('u \<Rightarrow> error + bool) \<Rightarrow> nat \<Rightarrow> 's \<Rightarrow> string \<Rightarrow> DocCollection
     \<Rightarrow> (error + response) \<times> DocCollection" where
  "rejectVerificationRequest getUser isAdmin now session requester col =
     (case getRequestByUser requester col of
        Inl e \<Rightarrow> (Inl e, col)
      | Inr verificationRequest \<Rightarrow>
          (case getUser session of
             Inl e \<Rightarrow> (Inl e, col)
           | Inr user \<Rightarrow>
               (case isAdmin user of
                  Inl e \<Rightarrow> (Inl e, col)
                | Inr adminStatus \<Rightarrow>
                    if \<not> adminStatus
                    then (Inr (Error_response ''You do not have permission to reject requests.''), col)
                    else (case rejectRequest now requester None col of
                            (Inl e, col') \<Rightarrow> (Inl e, col')
                          | (Inr result, col') \<Rightarrow> (Inr (Msg_response result), col')))))"

text \<open>
  A sample pair of collaborators for concrete runs: a session is the logged-in user's
  name, if any, and \<^verbatim>\<open>root\<close> is the only administrator.
\<close>

definition session_user :: "string option \<Rightarrow> error + string" where
  "session_user session =
     (case session of None \<Rightarrow> Inl (UnauthenticatedError ''Must be logged in!'') | Some user \<Rightarrow> Inr user)"

definition only_root_is_admin :: "string \<Rightarrow> error + bool" where
  "only_root_is_admin user = Inr (user = ''root'')"

section \<open>Facts about the store\<close>

lemmas module_defs =
  createVerificationRequest_def assertValidRequest_def getRequestByUser_def approveRequest_def
  rejectRequest_def deleteRequest_def reason_text_def
  readOne_def createOne_def partialUpdateOne_def deleteOne_def by_username_def

lemmas route_defs =
  getVerificationStatus_def approveVerificationRequest_def rejectVerificationRequest_def
  status_text_def falsy_doc_def session_user_def only_root_is_admin_def

lemma find_by_username_None:
  "find (by_username u) xs = None \<longleftrightarrow> u \<notin> username ` set xs"
  by (auto simp: find_None_iff by_username_def)

lemma find_by_username_Some:
  "u \<in> username ` set xs \<Longrightarrow> \<exists>d. find (by_username u) xs = Some d \<and> username d = u"
  by (cases "find (by_username u) xs") (auto simp: find_by_username_None find_Some_iff by_username_def)

lemma find_append_cases:
  "find f (xs @ ys) = (case find f xs of None \<Rightarrow> find f ys | Some x \<Rightarrow> Some x)"
  by (induction xs) auto

lemma find_update_first:
  "(\<And>x. f x \<Longrightarrow> f (g x)) \<Longrightarrow> find f (update_first f g xs) = map_option g (find f xs)"
  by (induction xs) auto

lemma find_update_status:
  "find (by_username u) (update_first (by_username u) (\<lambda>d. d\<lparr>status := s, updatedAt := t\<rparr>) xs) =
   map_option (\<lambda>d. d\<lparr>status := s, updatedAt := t\<rparr>) (find (by_username u) xs)"
  by (rule find_update_first) (simp add: by_username_def)



lemma map_update_first_keeps:
  "(\<And>x. h (g x) = h x) \<Longrightarrow> map h (update_first f g xs) = map h xs"
  by (induction xs) auto

lemma set_update_first:
  "d' \<in> set (update_first f g xs) \<Longrightarrow> d' \<in> set xs \<or> (\<exists>d\<in>set xs. f d \<and> d' = g d)"
  by (induction xs) (auto split: if_splits)

lemma delete_first_no_match:
  "\<forall>x\<in>set xs. \<not> f x \<Longrightarrow> delete_first f xs = xs"
  by (induction xs) auto

lemma set_delete_first: "set (delete_first f xs) \<subseteq> set xs"
  by (induction xs) auto

lemma distinct_map_delete_first:
  "distinct (map h xs) \<Longrightarrow> distinct (map h (delete_first f xs))"
proof (induction xs)
  case Nil
  then show ?case by simp
next
  case (Cons x xs)
  have "h x \<notin> h ` set (delete_first f xs)"
    using Cons.prems set_delete_first [of f xs] by auto
  with Cons show ?case by simp
qed

lemma find_own_oid:
  "distinct (map oid xs) \<Longrightarrow> d \<in> set xs \<Longrightarrow> find (\<lambda>e. oid e = oid d) xs = Some d"
  by (induction xs) (auto simp: image_iff)

lemma find_unused_oid:
  "\<forall>i\<in>set (map oid xs). i < n \<Longrightarrow> find (\<lambda>e. oid e = n) xs = None"
  by (auto simp: find_None_iff)

lemma one_match_per_username:
  "distinct (map username xs) \<Longrightarrow> length (filter (\<lambda>d. username d = s \<and> P d) xs) \<le> 1"
proof (induction xs)
  case Nil
  then show ?case by simp
next
  case (Cons x xs)
  show ?case
  proof (cases "username x = s")
    case True
    then have "filter (\<lambda>d. username d = s \<and> P d) xs = []"
      using Cons.prems by (auto simp: filter_empty_conv image_iff)
    then show ?thesis by simp
  next
    case False
    then show ?thesis using Cons by simp
  qed
qed

lemma pending_has_record:
  "pending_for u col \<noteq> [] \<Longrightarrow> u \<in> username ` set (docs col)"
  by (auto simp: pending_for_def filter_empty_conv)

section \<open>What one operation does to the collection\<close>

lemma step_cases:
  "docs (step now x col) = docs col \<and> next_oid (step now x col) = next_oid col \<or>
   (\<exists>u c. x = Create u c \<and> u \<notin> username ` set (docs col) \<and>
          step now x col = \<lparr>docs = docs col @ [\<lparr>oid = next_oid col, username = u, credentials = c, status = Pending, createdAt = now, updatedAt = now\<rparr>],
                         next_oid = Suc (next_oid col)\<rparr>) \<or>
   (\<exists>u. x = Approve u \<and> step now x col = col\<lparr>docs := update_first (by_username u) (\<lambda>d. d\<lparr>status := Approved, updatedAt := now\<rparr>) (docs col)\<rparr>) \<or>
   (\<exists>u r. x = Reject u r \<and> step now x col = col\<lparr>docs := update_first (by_username u) (\<lambda>d. d\<lparr>status := Rejected, updatedAt := now\<rparr>) (docs col)\<rparr>) \<or>
   (\<exists>u. x = Delete u \<and> step now x col = col\<lparr>docs := delete_first (by_username u) (docs col)\<rparr>)"
proof (cases x)
  case (Create u c)
  then show ?thesis
    by (auto simp: createVerificationRequest_def assertValidRequest_def readOne_def createOne_def
        find_by_username_None)
next
  case (Get u)
  then show ?thesis by simp
next
  case (Approve u)
  then show ?thesis
    by (simp add: approveRequest_def partialUpdateOne_def split: option.splits)
next
  case (Reject u r)
  then show ?thesis
    by (simp add: rejectRequest_def partialUpdateOne_def split: option.splits)
next
  case (Delete u)
  then show ?thesis
    by (simp add: deleteRequest_def deleteOne_def)
qed

lemma step_unique_usernames:
  assumes "unique_usernames col"
  shows "unique_usernames (step now x col)"
  using step_cases [of now x col] assms
  by (auto simp: unique_usernames_def map_update_first_keeps distinct_map_delete_first)

lemma run_unique_usernames:
  "unique_usernames col \<Longrightarrow> unique_usernames (run ops col)"
  by (induction ops col rule: run.induct) (simp_all add: step_unique_usernames)

lemma fresh_ids_alt:
  "fresh_ids col \<longleftrightarrow> distinct (map oid (docs col)) \<and> (\<forall>i\<in>set (map oid (docs col)). i < next_oid col)"
  by (auto simp: fresh_ids_def list_all_iff)

lemma step_fresh_ids:
  assumes "fresh_ids col"
  shows "fresh_ids (step now x col)"
  using step_cases [of now x col]
proof (elim disjE exE conjE)
  assume "docs (step now x col) = docs col" "next_oid (step now x col) = next_oid col"
  with assms show ?thesis by (simp add: fresh_ids_alt)
next
  fix u c
  assume "step now x col = \<lparr>docs = docs col @ [\<lparr>oid = next_oid col, username = u, credentials = c, status = Pending, createdAt = now, updatedAt = now\<rparr>],
                         next_oid = Suc (next_oid col)\<rparr>"
  with assms show ?thesis by (auto simp: fresh_ids_alt)
next
  fix u
  assume "step now x col = col\<lparr>docs := update_first (by_username u) (\<lambda>d. d\<lparr>status := Approved, updatedAt := now\<rparr>) (docs col)\<rparr>"
  with assms show ?thesis by (simp add: fresh_ids_alt map_update_first_keeps)
next
  fix u r
  assume "step now x col = col\<lparr>docs := update_first (by_username u) (\<lambda>d. d\<lparr>status := Rejected, updatedAt := now\<rparr>) (docs col)\<rparr>"
  with assms show ?thesis by (simp add: fresh_ids_alt map_update_first_keeps)
next
  fix u
  assume s: "step now x col = col\<lparr>docs := delete_first (by_username u) (docs col)\<rparr>"
  have "oid ` set (delete_first (by_username u) (docs col)) \<subseteq> oid ` set (docs col)"
    using set_delete_first [of "by_username u" "docs col"] by blast
  with assms s show ?thesis by (auto simp: fresh_ids_alt distinct_map_delete_first)
qed

lemma run_fresh_ids:
  "fresh_ids col \<Longrightarrow> fresh_ids (run ops col)"
  by (induction ops col rule: run.induct) (simp_all add: step_fresh_ids)

lemma step_transition:
  assumes f: "fresh_ids col" and m: "d' \<in> set (docs (step now x col))"
  shows "(case find (\<lambda>d. oid d = oid d') (docs col) of
            None \<Rightarrow> status d' = Pending
          | Some d \<Rightarrow> status d' = status d \<or>
              (x = Approve (username d) \<and> status d' = Approved) \<or>
              (\<exists>r. x = Reject (username d) r \<and> status d' = Rejected))"
proof -
  have dist: "distinct (map oid (docs col))" and below: "\<forall>i\<in>set (map oid (docs col)). i < next_oid col"
    using f by (simp_all add: fresh_ids_alt)
  have old: "?thesis" if "d' \<in> set (docs col)"
    using find_own_oid [OF dist that] by simp
  from step_cases [of now x col] show ?thesis
  proof (elim disjE exE conjE)
    assume "docs (step now x col) = docs col"
    with m old show ?thesis by simp
  next
    fix u c
    assume s: "step now x col = \<lparr>docs = docs col @ [\<lparr>oid = next_oid col, username = u, credentials = c, status = Pending, createdAt = now, updatedAt = now\<rparr>],
                         next_oid = Suc (next_oid col)\<rparr>"
    show ?thesis
    proof (cases "d' \<in> set (docs col)")
      case True
      then show ?thesis by (rule old)
    next
      case False
      with m s have "d' = \<lparr>oid = next_oid col, username = u, credentials = c, status = Pending,
                           createdAt = now, updatedAt = now\<rparr>"
        by simp
      then show ?thesis
        using find_unused_oid [OF below] by simp
    qed
  next
    fix u
    assume s: "step now x col = col\<lparr>docs := update_first (by_username u) (\<lambda>d. d\<lparr>status := Approved, updatedAt := now\<rparr>) (docs col)\<rparr>"
      and x: "x = Approve u"
    from m s have "d' \<in> set (docs col) \<or> (\<exists>d\<in>set (docs col). by_username u d \<and> d' = d\<lparr>status := Approved, updatedAt := now\<rparr>)"
      using set_update_first [of d' "by_username u" "\<lambda>d. d\<lparr>status := Approved, updatedAt := now\<rparr>" "docs col"] by simp
    then show ?thesis
    proof
      assume "d' \<in> set (docs col)"
      then show ?thesis by (rule old)
    next
      assume "\<exists>d\<in>set (docs col). by_username u d \<and> d' = d\<lparr>status := Approved, updatedAt := now\<rparr>"
      then obtain d where d: "d \<in> set (docs col)" "username d = u" "d' = d\<lparr>status := Approved, updatedAt := now\<rparr>"
        by (auto simp: by_username_def)
      then show ?thesis
        using find_own_oid [OF dist d(1)] x by simp
    qed
  next
    fix u r
    assume s: "step now x col = col\<lparr>docs := update_first (by_username u) (\<lambda>d. d\<lparr>status := Rejected, updatedAt := now\<rparr>) (docs col)\<rparr>"
      and x: "x = Reject u r"
    from m s have "d' \<in> set (docs col) \<or> (\<exists>d\<in>set (docs col). by_username u d \<and> d' = d\<lparr>status := Rejected, updatedAt := now\<rparr>)"
      using set_update_first [of d' "by_username u" "\<lambda>d. d\<lparr>status := Rejected, updatedAt := now\<rparr>" "docs col"] by simp
    then show ?thesis
    proof
      assume "d' \<in> set (docs col)"
      then show ?thesis by (rule old)
    next
      assume "\<exists>d\<in>set (docs col). by_username u d \<and> d' = d\<lparr>status := Rejected, updatedAt := now\<rparr>"
      then obtain d where d: "d \<in> set (docs col)" "username d = u" "d' = d\<lparr>status := Rejected, updatedAt := now\<rparr>"
        by (auto simp: by_username_def)
      then show ?thesis
        using find_own_oid [OF dist d(1)] x by simp
    qed
  next
    fix u
    assume s: "step now x col = col\<lparr>docs := delete_first (by_username u) (docs col)\<rparr>"
    with m have "d' \<in> set (docs col)"
      using set_delete_first [of "by_username u" "docs col"] by auto
    then show ?thesis by (rule old)
  qed
qed

section \<open>The concrete collections\<close>

lemma approved_alice_eq:
  "approved_alice =
     \<lparr>docs = [\<lparr>oid = 0, username = ''alice'', credentials = ''doc123'', status = Approved,
               createdAt = 10, updatedAt = 20\<rparr>],
      next_oid = Suc 0\<rparr>"
  by (simp add: approved_alice_def empty_collection_def module_defs)

lemma pending_bob_eq:
  "pending_bob =
     \<lparr>docs = [\<lparr>oid = 0, username = ''alice'', credentials = ''doc123'', status = Approved,
               createdAt = 10, updatedAt = 20\<rparr>,
              \<lparr>oid = Suc 0, username = ''bob'', credentials = ''doc7'', status = Pending,
               createdAt = 30, updatedAt = 30\<rparr>],
      next_oid = Suc (Suc 0)\<rparr>"
  by (simp add: pending_bob_def empty_collection_def module_defs)

section \<open>Invariants of the collection\<close>

text \<open>
  C1. Starting from the empty collection, after any sequence of create, get, approve,
  reject and delete operations run one at a time, every subject has at most one document
  with status pending. (The creation check keeps usernames unique, which gives more: at
  most one document of any status.)
\<close>

theorem one_pending_per_subject:
  "length (pending_for s (run ops empty_collection)) \<le> 1"
proof -
  have "unique_usernames empty_collection"
    by (simp add: unique_usernames_def empty_collection_def)
  then have "unique_usernames (run ops empty_collection)"
    by (rule run_unique_usernames)
  then show ?thesis
    using one_match_per_username [of "docs (run ops empty_collection)" s "\<lambda>d. status d = Pending"]
    by (simp add: pending_for_def unique_usernames_def)
qed

theorem one_pending_per_subject_witness:
  "length (pending_for ''bob''
     (run [(10, Create ''bob'' ''doc7''), (20, Create ''bob'' ''doc8''), (30, Delete ''alice'')]
        empty_collection)) = 1"
  using one_pending_per_subject
    [of "''bob''" "[(10, Create ''bob'' ''doc7''), (20, Create ''bob'' ''doc8''), (30, Delete ''alice'')]"]
  by (simp add: pending_for_def empty_collection_def module_defs)

text \<open>
  C2 as stated fails on the code: neither \<^verbatim>\<open>approveRequest\<close> nor \<^verbatim>\<open>rejectRequest\<close>
  looks at the current status, so rejecting alice's approved request moves the same
  document (id 0) from approved to rejected.
\<close>

theorem terminal_status_can_change_counterexample:
  "docs approved_alice =
     [\<lparr>oid = 0, username = ''alice'', credentials = ''doc123'', status = Approved,
       createdAt = 10, updatedAt = 20\<rparr>] \<and>
   docs (step 40 (Reject ''alice'' None) approved_alice) =
     [\<lparr>oid = 0, username = ''alice'', credentials = ''doc123'', status = Rejected,
       createdAt = 10, updatedAt = 40\<rparr>]"
  by (simp add: approved_alice_eq module_defs)

text \<open>
  C2, amended. Over any sequence of module operations from the empty collection, one
  further operation leaves every document in one of these situations: its id was not in
  the collection before, and then its status is pending (documents are created pending);
  or its status is what it was; or the operation is an approve of its subject and its
  status is now approved; or the operation is a reject of its subject and its status is
  now rejected. So a status changes only to approved or to rejected, from whatever it was
  before, and never back to pending.
\<close>

theorem status_only_moves_to_terminal:
  "\<forall>d'\<in>set (docs (step now x (run ops empty_collection))).
     (case find (\<lambda>d. oid d = oid d') (docs (run ops empty_collection)) of
        None \<Rightarrow> status d' = Pending
      | Some d \<Rightarrow> status d' = status d \<or>
          (x = Approve (username d) \<and> status d' = Approved) \<or>
          (\<exists>r. x = Reject (username d) r \<and> status d' = Rejected))"
proof
  fix d'
  assume m: "d' \<in> set (docs (step now x (run ops empty_collection)))"
  have "fresh_ids empty_collection"
    by (simp add: fresh_ids_def empty_collection_def)
  then have "fresh_ids (run ops empty_collection)"
    by (rule run_fresh_ids)
  then show "case find (\<lambda>d. oid d = oid d') (docs (run ops empty_collection)) of
        None \<Rightarrow> status d' = Pending
      | Some d \<Rightarrow> status d' = status d \<or>
          (x = Approve (username d) \<and> status d' = Approved) \<or>
          (\<exists>r. x = Reject (username d) r \<and> status d' = Rejected)"
    using m by (rule step_transition)
qed

theorem status_only_moves_to_terminal_witness:
  "\<lparr>oid = 0, username = ''alice'', credentials = ''doc123'', status = Rejected,
     createdAt = 10, updatedAt = 40\<rparr>
     \<in> set (docs (step 40 (Reject ''alice'' None)
                (run [(10, Create ''alice'' ''doc123''), (20, Approve ''alice'')] empty_collection))) \<and>
   find (\<lambda>d. oid d = 0)
     (docs (run [(10, Create ''alice'' ''doc123''), (20, Approve ''alice'')] empty_collection)) =
     Some \<lparr>oid = 0, username = ''alice'', credentials = ''doc123'', status = Approved,
            createdAt = 10, updatedAt = 20\<rparr> \<and>
   (\<exists>r. Reject ''alice'' None = Reject ''alice'' r)"
  using status_only_moves_to_terminal
    [of 40 "Reject ''alice'' None" "[(10, Create ''alice'' ''doc123''), (20, Approve ''alice'')]"]
  by (simp add: empty_collection_def module_defs)

section \<open>The routes\<close>

text \<open>
  C3. On the empty collection the status route for \<^verbatim>\<open>alice\<close> does not return the
  sentinel \<^verbatim>\<open>{ status: "No verification request found." }\<close>: \<^verbatim>\<open>getRequestByUser\<close>
  throws before the route's test \<^verbatim>\<open>!request\<close> is reached, and the route throws the
  \<^verbatim>\<open>NotFoundError\<close> on.
\<close>

theorem status_route_throws_not_found:
  "getVerificationStatus (Some ''alice'') ''alice'' empty_collection =
     (Inl (NotFoundError ''Verification request not found!''), empty_collection)"
  by (simp add: empty_collection_def route_defs module_defs)

text \<open>The sentinel is returned on no input at all; with a document, its status is.\<close>

lemma status_route_never_sentinel:
  "fst (getVerificationStatus session u col) \<noteq> Inr (Status_response ''No verification request found.'')"
  by (auto simp: getVerificationStatus_def falsy_doc_def status_text_def split: sum.splits status_value.splits)

lemma status_route_existing:
  "u \<in> username ` set (docs col) \<Longrightarrow>
   \<exists>d. find (by_username u) (docs col) = Some d \<and>
       getVerificationStatus session u col = (Inr (Status_response (status_text (status d))), col)"
  using find_by_username_Some [of u "docs col"]
  by (auto simp: getVerificationStatus_def falsy_doc_def getRequestByUser_def readOne_def)

text \<open>
  C4. When the requester has a pending document, the session resolves to a user and the
  administrator predicate answers false for that user, the approve route and the reject
  route each return their permission object \<^verbatim>\<open>{ error: ... }\<close> without throwing, and
  the collection is left exactly as it was (so the document is still pending, and no
  timestamp has moved).
\<close>

theorem non_admin_is_refused:
  assumes "pending_for requester col \<noteq> []"
    and "getUser session = Inr user" and "isAdmin user = Inr False"
  shows "approveVerificationRequest getUser isAdmin now session requester col =
           (Inr (Error_response ''You do not have permission to approve requests.''), col) \<and>
         rejectVerificationRequest getUser isAdmin now session requester col =
           (Inr (Error_response ''You do not have permission to reject requests.''), col)"
proof -
  obtain d where "find (by_username requester) (docs col) = Some d"
    using find_by_username_Some [OF pending_has_record [OF assms(1)]] by blast
  then show ?thesis
    using assms(2,3)
    by (simp add: approveVerificationRequest_def rejectVerificationRequest_def getRequestByUser_def readOne_def)
qed

theorem non_admin_is_refused_witness:
  "pending_for ''bob'' pending_bob \<noteq> [] \<and>
   session_user (Some ''carol'') = Inr ''carol'' \<and> only_root_is_admin ''carol'' = Inr False \<and>
   approveVerificationRequest session_user only_root_is_admin 40 (Some ''carol'') ''bob'' pending_bob =
     (Inr (Error_response ''You do not have permission to approve requests.''), pending_bob) \<and>
   rejectVerificationRequest session_user only_root_is_admin 40 (Some ''carol'') ''bob'' pending_bob =
     (Inr (Error_response ''You do not have permission to reject requests.''), pending_bob) \<and>
   pending_for ''bob''
     (snd (approveVerificationRequest session_user only_root_is_admin 40 (Some ''carol'') ''bob'' pending_bob)) \<noteq> []"
  using non_admin_is_refused
    [of "''bob''" pending_bob session_user "Some ''carol''" "''carol''" only_root_is_admin 40]
  by (simp add: pending_bob_eq pending_for_def session_user_def only_root_is_admin_def)

section \<open>Creation\<close>

text \<open>
  C5. For a non-empty subject and non-empty credentials, \<^verbatim>\<open>createVerificationRequest\<close>
  fails with a \<^verbatim>\<open>NotAllowedError\<close> exactly when the collection holds a document for that
  subject, whatever that document's status; the error then carries the subject's name and
  the collection is unchanged.
\<close>

theorem create_conflict_iff:
  assumes "u \<noteq> []" and "c \<noteq> []"
  shows "((\<exists>m. fst (createVerificationRequest now u c col) = Inl (NotAllowedError m)) \<longleftrightarrow>
            u \<in> username ` set (docs col)) \<and>
         (createVerificationRequest now u c col =
            (Inl (NotAllowedError (''User with ID '' @ u @ '' already has a pending request!'')), col) \<longleftrightarrow>
            u \<in> username ` set (docs col))"
  using assms
  by (auto simp: createVerificationRequest_def assertValidRequest_def readOne_def createOne_def
        find_by_username_None split: prod.splits)

theorem create_conflict_iff_witness:
  "''alice'' \<noteq> [] \<and> ''doc456'' \<noteq> [] \<and>
   ''alice'' \<in> username ` set (docs approved_alice) \<and>
   createVerificationRequest 40 ''alice'' ''doc456'' approved_alice =
     (Inl (NotAllowedError ''User with ID alice already has a pending request!''), approved_alice)"
  using create_conflict_iff [of "''alice''" "''doc456''" 40 approved_alice]
  by (simp add: approved_alice_eq)

text \<open>
  C6 as stated fails on the code: alice has no pending document (her only one is
  approved), and a new request for her is refused all the same.
\<close>

theorem create_blocked_without_pending_counterexample:
  "''alice'' \<noteq> [] \<and> ''doc456'' \<noteq> [] \<and> pending_for ''alice'' approved_alice = [] \<and>
   fst (createVerificationRequest 40 ''alice'' ''doc456'' approved_alice) =
     Inl (NotAllowedError ''User with ID alice already has a pending request!'')"
  by (simp add: approved_alice_eq pending_for_def module_defs)

text \<open>
  C6, amended. For every non-empty subject with no document at all in the collection
  (of any status) and non-empty credentials, \<^verbatim>\<open>createVerificationRequest\<close> succeeds: it
  returns the success message together with the new document, which is pending, is added
  at the end of the collection under the next id with both timestamps at the clock
  reading, and is what a following \<^verbatim>\<open>getRequestByUser\<close> of the subject returns.
\<close>

theorem create_succeeds_without_record:
  assumes "u \<noteq> []" and "c \<noteq> []" and "u \<notin> username ` set (docs col)"
  shows "createVerificationRequest now u c col =
           (Inr \<lparr>msg = ''Verification request created successfully!'',
                 request = Some \<lparr>oid = next_oid col, username = u, credentials = c, status = Pending,
                                 createdAt = now, updatedAt = now\<rparr>\<rparr>,
            \<lparr>docs = docs col @ [\<lparr>oid = next_oid col, username = u, credentials = c, status = Pending,
                                 createdAt = now, updatedAt = now\<rparr>],
             next_oid = Suc (next_oid col)\<rparr>) \<and>
         getRequestByUser u (snd (createVerificationRequest now u c col)) =
           Inr \<lparr>oid = next_oid col, username = u, credentials = c, status = Pending,
                createdAt = now, updatedAt = now\<rparr>"
proof -
  have n: "find (by_username u) (docs col) = None"
    using assms(3) by (simp add: find_by_username_None)
  have f: "find (by_username u)
             (docs col @ [\<lparr>oid = next_oid col, username = u, credentials = c, status = Pending,
                           createdAt = now, updatedAt = now\<rparr>]) =
           Some \<lparr>oid = next_oid col, username = u, credentials = c, status = Pending,
                 createdAt = now, updatedAt = now\<rparr>"
    using n by (simp add: find_append_cases by_username_def)
  show ?thesis
    using assms(1,2) n f
    by (simp add: createVerificationRequest_def assertValidRequest_def readOne_def createOne_def
        getRequestByUser_def)
qed

theorem create_succeeds_without_record_witness:
  "''bob'' \<noteq> [] \<and> ''doc9'' \<noteq> [] \<and> ''bob'' \<notin> username ` set (docs approved_alice) \<and>
   fst (createVerificationRequest 40 ''bob'' ''doc9'' approved_alice) =
     Inr \<lparr>msg = ''Verification request created successfully!'',
          request = Some \<lparr>oid = 1, username = ''bob'', credentials = ''doc9'', status = Pending,
                          createdAt = 40, updatedAt = 40\<rparr>\<rparr> \<and>
   getRequestByUser ''bob'' (snd (createVerificationRequest 40 ''bob'' ''doc9'' approved_alice)) =
     Inr \<lparr>oid = 1, username = ''bob'', credentials = ''doc9'', status = Pending,
          createdAt = 40, updatedAt = 40\<rparr>"
  using create_succeeds_without_record [of "''bob''" "''doc9''" approved_alice 40]
  by (simp add: approved_alice_eq module_defs)

section \<open>Approve and reject\<close>




text \<open>
  C8. For every subject with a document, \<^verbatim>\<open>rejectRequest\<close> succeeds and a following
  \<^verbatim>\<open>getRequestByUser\<close> returns a document with status rejected. Without a reason the
  message is exactly \<^verbatim>\<open>Verification request rejected. \<close>; with a reason the message
  contains the reason's text: it is the same prefix followed by \<^verbatim>\<open>Reason: \<close> and the
  reason, or the bare prefix when the supplied reason is the empty string.
\<close>

theorem reject_sets_rejected_message:
  assumes "u \<in> username ` set (docs col)"
  shows "(\<exists>d. getRequestByUser u (snd (rejectRequest now u reason col)) = Inr d \<and> status d = Rejected) \<and>
         (case reason of
            None \<Rightarrow> fst (rejectRequest now u reason col) = Inr \<lparr>msg = ''Verification request rejected. ''\<rparr>
          | Some r \<Rightarrow>
              fst (rejectRequest now u reason col) =
                Inr \<lparr>msg = (if r = [] then ''Verification request rejected. ''
                            else ''Verification request rejected. Reason: '' @ r)\<rparr> \<and>
              (\<exists>m. fst (rejectRequest now u reason col) = Inr \<lparr>msg = m\<rparr> \<and> sublist r m))"
proof -
  obtain d where d: "find (by_username u) (docs col) = Some d"
    using find_by_username_Some [OF assms] by blast
  have f: "find (by_username u)
             (update_first (by_username u) (\<lambda>d. d\<lparr>status := Rejected, updatedAt := now\<rparr>) (docs col)) =
           Some (d\<lparr>status := Rejected, updatedAt := now\<rparr>)"
    using d by (simp add: find_update_status)
  have s: "\<And>r. sublist r (''Verification request rejected. Reason: '' @ r)"
    by (rule suffix_imp_sublist) (simp add: suffix_def)
  show ?thesis
    using d f s
    by (auto simp: rejectRequest_def readOne_def partialUpdateOne_def getRequestByUser_def reason_text_def
        split: option.splits)
qed

theorem reject_sets_rejected_message_witness:
  "''bob'' \<in> username ` set (docs pending_bob) \<and>
   (\<exists>d. getRequestByUser ''bob'' (snd (rejectRequest 40 ''bob'' (Some ''bad doc'') pending_bob)) = Inr d
        \<and> status d = Rejected) \<and>
   fst (rejectRequest 40 ''bob'' (Some ''bad doc'') pending_bob) =
     Inr \<lparr>msg = ''Verification request rejected. Reason: bad doc''\<rparr> \<and>
   (\<exists>m. fst (rejectRequest 40 ''bob'' (Some ''bad doc'') pending_bob) = Inr \<lparr>msg = m\<rparr> \<and> sublist ''bad doc'' m)"
  using reject_sets_rejected_message [of "''bob''" pending_bob 40 "Some ''bad doc''"]
  by (simp add: pending_bob_eq module_defs)

section \<open>Absence: delete succeeds, the others fail\<close>

text \<open>
  C9. \<^verbatim>\<open>deleteRequest\<close> returns its success message on every collection, and when no
  document has the given username it leaves the collection as it was; in that same
  situation \<^verbatim>\<open>getRequestByUser\<close>, \<^verbatim>\<open>approveRequest\<close> and \<^verbatim>\<open>rejectRequest\<close> each fail
  with a \<^verbatim>\<open>NotFoundError\<close> (and change nothing).
\<close>

theorem delete_succeeds_others_not_found:
  "fst (deleteRequest u col) = Inr \<lparr>msg = ''Verification request deleted!''\<rparr> \<and>
   (u \<notin> username ` set (docs col) \<longrightarrow>
      snd (deleteRequest u col) = col \<and>
      getRequestByUser u col = Inl (NotFoundError ''Verification request not found!'') \<and>
      approveRequest now u col = (Inl (NotFoundError ''Verification request not found.''), col) \<and>
      rejectRequest now u reason col = (Inl (NotFoundError ''Verification request not found.''), col))"
proof (intro conjI impI)
  show "fst (deleteRequest u col) = Inr \<lparr>msg = ''Verification request deleted!''\<rparr>"
    by (simp add: deleteRequest_def)
next
  assume a: "u \<notin> username ` set (docs col)"
  then have "\<forall>x\<in>set (docs col). \<not> by_username u x"
    by (auto simp: by_username_def)
  then show "snd (deleteRequest u col) = col"
    by (simp add: deleteRequest_def deleteOne_def delete_first_no_match)
next
  assume a: "u \<notin> username ` set (docs col)"
  then show "getRequestByUser u col = Inl (NotFoundError ''Verification request not found!'')"
    by (simp add: getRequestByUser_def readOne_def find_by_username_None [THEN iffD2])
next
  assume a: "u \<notin> username ` set (docs col)"
  then show "approveRequest now u col = (Inl (NotFoundError ''Verification request not found.''), col)"
    by (simp add: approveRequest_def readOne_def find_by_username_None [THEN iffD2])
next
  assume a: "u \<notin> username ` set (docs col)"
  then show "rejectRequest now u reason col = (Inl (NotFoundError ''Verification request not found.''), col)"
    by (simp add: rejectRequest_def readOne_def find_by_username_None [THEN iffD2])
qed

theorem delete_succeeds_others_not_found_witness:
  "fst (deleteRequest ''alice'' empty_collection) = Inr \<lparr>msg = ''Verification request deleted!''\<rparr> \<and>
   ''alice'' \<notin> username ` set (docs empty_collection) \<and>
   snd (deleteRequest ''alice'' empty_collection) = empty_collection \<and>
   getRequestByUser ''alice'' empty_collection = Inl (NotFoundError ''Verification request not found!'') \<and>
   approveRequest 40 ''alice'' empty_collection =
     (Inl (NotFoundError ''Verification request not found.''), empty_collection) \<and>
   rejectRequest 40 ''alice'' (Some ''bad doc'') empty_collection =
     (Inl (NotFoundError ''Verification request not found.''), empty_collection)"
  using delete_succeeds_others_not_found [of "''alice''" empty_collection 40 "Some ''bad doc''"]
  by (simp add: empty_collection_def)

section \<open>The reject route and the reason\<close>

text \<open>
  C10. The reject route never hands a reason to the module. Whenever it returns a message
  object, for any caller, session and requester, that object is exactly
  \<^verbatim>\<open>{ msg: "Verification request rejected. " }\<close>, and it is, with the collection left
  behind, what \<^verbatim>\<open>rejectRequest\<close> returns when called with the reason left out. The route
  has no parameter through which a caller's reason could arrive.
\<close>

theorem reject_route_omits_reason:
  assumes "fst (rejectVerificationRequest getUser isAdmin now session requester col) = Inr (Msg_response m)"
  shows "m = \<lparr>msg = ''Verification request rejected. ''\<rparr> \<and>
         rejectRequest now requester None col =
           (Inr m, snd (rejectVerificationRequest getUser isAdmin now session requester col))"
  using assms
  by (auto simp: rejectVerificationRequest_def rejectRequest_def reason_text_def
      split: sum.splits if_splits prod.splits option.splits)

theorem reject_route_omits_reason_witness:
  "fst (rejectVerificationRequest session_user only_root_is_admin 40 (Some ''root'') ''bob'' pending_bob) =
     Inr (Msg_response \<lparr>msg = ''Verification request rejected. ''\<rparr>) \<and>
   rejectRequest 40 ''bob'' None pending_bob =
     (Inr \<lparr>msg = ''Verification request rejected. ''\<rparr>,
      snd (rejectVerificationRequest session_user only_root_is_admin 40 (Some ''root'') ''bob'' pending_bob))"
  using reject_route_omits_reason
    [of session_user only_root_is_admin 40 "Some ''root''" "''bob''" pending_bob
      "\<lparr>msg = ''Verification request rejected. ''\<rparr>"]
  by (simp add: pending_bob_eq route_defs module_defs)

end
